theory Spec2Isabelle
  imports Main "HOL-Library.AList"
begin

section \<open>Exceptions and messages\<close>

text \<open>
  Every exception the modelled code can raise is a value of \<open>error\<close>; a function that
  can raise returns \<open>error + 'a\<close> (\<open>Inl\<close> the exception), or the pair of the
  exception (if any) and the object as it was left when a method mutates \<open>self\<close>.
  \<open>HandlerError\<close> stands for whatever a user-supplied handler or hook raises.
\<close>

datatype error =
    UnknowMessageTypeException
  | RuntimeError
  | RouterWithoutRuleException
  | BadInputDataException
  | IndexError
  | KeyError
  | AttributeError
  | SourceException
  | HandlerError string

type_synonym class_name = string

text \<open>
  Modelled from the spec: the message classes of \<open>smartwatts.message\<close> (the module is
  imported by the sources, its text is not part of them). A message object carries the
  method resolution order of its class (its own class first, the base classes after it)
  and the constructor argument of \<open>ErrorMessage\<close>.
\<close>

datatype message = Message (msg_mro: "class_name list") (msg_arg: string)

definition StartMessage :: message where
  "StartMessage = Message [''StartMessage'', ''object''] []"

definition OKMessage :: message where
  "OKMessage = Message [''OKMessage'', ''object''] []"

definition ErrorMessage :: "string \<Rightarrow> message" where
  "ErrorMessage reason = Message [''ErrorMessage'', ''object''] reason"

definition PoisonPillMessage :: message where
  "PoisonPillMessage = Message [''PoisonPillMessage'', ''object''] []"

text \<open>
  Python's \<open>isinstance(msg, msg_type)\<close>: the class \<open>msg_type\<close> occurs in the method
  resolution order of the class of \<open>msg\<close>. The timeout path passes \<open>None\<close> for the
  message, whose class is \<open>NoneType\<close>. Classes that accept instances through
  \<open>__instancecheck__\<close> or \<open>__subclasshook__\<close> (virtual subclasses) are not modelled.
\<close>

definition py_mro :: "message option \<Rightarrow> class_name list" where
  "py_mro msg = (case msg of None \<Rightarrow> [''NoneType'', ''object''] | Some m \<Rightarrow> msg_mro m)"

definition isinstance :: "message option \<Rightarrow> class_name \<Rightarrow> bool" where
  "isinstance msg msg_type = (msg_type \<in> set (py_mro msg))"

section \<open>Actor state and socket interface\<close>

text \<open>
  Modelled from the spec: the socket interface of an actor state (an external
  collaborator of the sources). The record keeps what the modelled code does to it: the
  numbers of \<open>setup()\<close> and \<open>close()\<close> calls, the messages given to
  \<open>send_control\<close>, oldest first, and the batches the successive \<open>receive()\<close> calls
  return. A \<open>receive()\<close> with no batch left returns the empty list, as a timeout does.
\<close>

record socket_interface =
  setup_calls :: nat
  close_calls :: nat
  control_sent :: "message list"
  incoming :: "message list list"

definition socket_setup :: "socket_interface \<Rightarrow> socket_interface" where
  "socket_setup sock = sock\<lparr>setup_calls := Suc (setup_calls sock)\<rparr>"


definition send_control :: "message \<Rightarrow> socket_interface \<Rightarrow> socket_interface" where
  "send_control msg sock = sock\<lparr>control_sent := control_sent sock @ [msg]\<rparr>"

definition receive :: "socket_interface \<Rightarrow> message list \<times> socket_interface" where
  "receive sock =
     (case incoming sock of
        [] \<Rightarrow> ([], sock)
      | batch # later \<Rightarrow> (batch, sock\<lparr>incoming := later\<rparr>))"

text \<open>
  The state object of an actor: the attributes the sources read and write. The record is
  extensible, as the state class is subclassed.
\<close>

record state =
  alive :: bool
  initialized :: bool
  socket_interface :: socket_interface

section \<open>StartHandler\<close>

text \<open>
  \<open>StartHandler.handle(msg, state)\<close>. The hook \<open>initialization\<close> is overridden by
  subclasses, so it is a parameter here, and it may raise.
\<close>

definition handle ::
  "('a state_scheme \<Rightarrow> error + 'a state_scheme) \<Rightarrow> message option \<Rightarrow> 'a state_scheme
     \<Rightarrow> error + 'a state_scheme" where
  "handle initialization msg st =
     (if initialized st then
        Inr (st\<lparr>socket_interface :=
                 send_control (ErrorMessage ''Actor already initialized'') (socket_interface st)\<rparr>)
      else if \<not> isinstance msg ''StartMessage'' then Inr st
      else
        (case initialization st of
           Inl e \<Rightarrow> Inl e
         | Inr st1 \<Rightarrow>
             let st2 = st1\<lparr>initialized := True\<rparr>
             in Inr (st2\<lparr>socket_interface := send_control OKMessage (socket_interface st2)\<rparr>)))"

text \<open>The default \<open>initialization\<close> of the base class returns the state as it is.\<close>

definition initialization :: "'a state_scheme \<Rightarrow> error + 'a state_scheme" where
  "initialization st = Inr st"

section \<open>Filter\<close>

text \<open>
  \<open>Filter.filters\<close> is the list of (rule, dispatcher) pairs in registration order.
  \<open>filter\<close> appends a pair; \<open>route\<close> raises on an empty list and otherwise
  runs every rule on the report and collects the dispatchers of the accepting ones.
\<close>

type_synonym ('r, 'd) filters = "(('r \<Rightarrow> bool) \<times> 'd) list"

definition filter_rule :: "('r \<Rightarrow> bool) \<Rightarrow> 'd \<Rightarrow> ('r, 'd) filters \<Rightarrow> ('r, 'd) filters" where
  "filter_rule rule dispatcher filters = filters @ [(rule, dispatcher)]"

fun route_loop :: "('r, 'd) filters \<Rightarrow> 'r \<Rightarrow> 'd list \<Rightarrow> 'd list" where
  "route_loop [] report dispatchers = dispatchers"
| "route_loop ((rule, dispatcher) # rest) report dispatchers =
     (if rule report then route_loop rest report (dispatchers @ [dispatcher])
      else route_loop rest report dispatchers)"

definition route :: "('r, 'd) filters \<Rightarrow> 'r \<Rightarrow> error + 'd list" where
  "route filters report =
     (if filters = [] then Inl RuntimeError else Inr (route_loop filters report []))"

section \<open>Actor\<close>

text \<open>
  A handler object: its two entry points, each of which may raise. The message handlers
  are entered through \<open>handle_message\<close>, the timeout handler through \<open>handle\<close> with
  \<open>None\<close> for the message.
\<close>

record 'a handler =
  h_handle :: "message option \<Rightarrow> 'a state_scheme \<Rightarrow> error + 'a state_scheme"
  h_handle_message :: "message \<Rightarrow> 'a state_scheme \<Rightarrow> error + 'a state_scheme"

text \<open>
  The calls the actor makes on its collaborators besides the socket interface, in the
  order they are made.
\<close>

datatype 'a call =
    Set_proc_title string
  | Signal_handler_setup
  | Handle_message "'a handler" message
  | Handle_timeout "'a handler"
  | Terminated_behaviour

text \<open>
  The attributes of an \<open>Actor\<close>, and the record of the calls it has made. The output of
  \<open>log\<close> is not modelled.
\<close>

record 'a actor =
  name :: string
  verbose :: bool
  timeout :: "nat option"
  state :: "'a state_scheme"
  timeout_handler :: "'a handler option"
  handlers :: "(class_name \<times> 'a handler) list"
  calls :: "'a call list"

definition add_handler :: "class_name \<Rightarrow> 'a handler \<Rightarrow> 'a actor \<Rightarrow> 'a actor" where
  "add_handler message_type handler a = a\<lparr>handlers := handlers a @ [(message_type, handler)]\<rparr>"

fun get_corresponding_handler ::
  "(class_name \<times> 'a handler) list \<Rightarrow> message \<Rightarrow> error + 'a handler" where
  "get_corresponding_handler [] msg = Inl UnknowMessageTypeException"
| "get_corresponding_handler ((msg_type, handler) # rest) msg =
     (if isinstance (Some msg) msg_type then Inr handler
      else get_corresponding_handler rest msg)"

text \<open>
  The loop \<open>for msg in msg_list\<close> of \<open>_initial_behaviour\<close>. An exception leaves the
  loop with the actor as it is at that point; the state is assigned only when the
  handler has returned.
\<close>

fun dispatch :: "'a actor \<Rightarrow> message list \<Rightarrow> error option \<times> 'a actor" where
  "dispatch a [] = (None, a)"
| "dispatch a (msg # rest) =
     (case get_corresponding_handler (handlers a) msg of
        Inl e \<Rightarrow> (Some e, a)
      | Inr handler \<Rightarrow>
          (let a1 = a\<lparr>calls := calls a @ [Handle_message handler msg]\<rparr>
           in case h_handle_message handler msg (state a1) of
                Inl e \<Rightarrow> (Some e, a1)
              | Inr st \<Rightarrow> dispatch (a1\<lparr>state := st\<rparr>) rest))"

definition initial_behaviour :: "'a actor \<Rightarrow> error option \<times> 'a actor" where
  "initial_behaviour a =
     (let (msg_list, sock) = receive (socket_interface (state a));
          a0 = a\<lparr>state := (state a)\<lparr>socket_interface := sock\<rparr>\<rparr>
      in if msg_list = [] then
           (case timeout_handler a0 of
              None \<Rightarrow> (Some AttributeError, a0)
            | Some th \<Rightarrow>
                (let a1 = a0\<lparr>calls := calls a0 @ [Handle_timeout th]\<rparr>
                 in case h_handle th None (state a1) of
                      Inl e \<Rightarrow> (Some e, a1)
                    | Inr st \<Rightarrow> (None, a1\<lparr>state := st\<rparr>)))
         else dispatch a0 msg_list)"

text \<open>
  \<open>Actor.setup\<close> (named \<open>actor_setup\<close> here), and \<open>_kill_process\<close> with the hook \<open>terminated_behaviour\<close> that subclasses
  override (a parameter; the base class's does nothing).
\<close>

definition actor_setup :: "'a actor \<Rightarrow> 'a actor" where
  "actor_setup a =
     (let a1 = a\<lparr>calls := calls a @ [Set_proc_title (name a)]\<rparr>;
          a2 = a1\<lparr>state := (state a1)\<lparr>socket_interface := socket_setup (socket_interface (state a1))\<rparr>\<rparr>
      in a2\<lparr>calls := calls a2 @ [Signal_handler_setup]\<rparr>)"





section \<open>HWPCReportsGroup\<close>

text \<open>
  A Python dict is an association list in insertion order. One input dictionary (a
  document of the database) has the keys \<open>timestamp\<close>, \<open>sensor\<close>, \<open>target\<close>,
  \<open>groups\<close> and \<open>metadata\<close>, each of which may be missing; \<open>groups\<close> nests
  group, socket, core and event.
\<close>

type_synonym events_dict = "(string \<times> int) list"
type_synonym cores_dict = "(string \<times> events_dict) list"
type_synonym sockets_dict = "(string \<times> cores_dict) list"
type_synonym groups_dict = "(string \<times> sockets_dict) list"

record report_dict =
  rd_timestamp :: "int option"
  rd_sensor :: "string option"
  rd_target :: "string option"
  rd_groups :: "groups_dict option"
  rd_metadata :: "(string \<times> string) list option"

text \<open>One line of the report (the data frame): the six columns.\<close>

record hwpc_row =
  r_target :: string
  r_groups :: string
  r_socket_id :: string
  r_core_id :: string
  r_event_id :: string
  r_event_value :: int

record hwpc_reports_group =
  g_timestamp :: int
  g_sensor :: string
  g_metadata :: "(string \<times> string) list"
  g_report :: "hwpc_row list"

text \<open>
  Modelled from the spec: \<open>ReportsGroup.is_basic_information_in_reports_dict\<close> (the
  base class is not part of the sources): every dictionary has the keys \<open>timestamp\<close>,
  \<open>sensor\<close> and \<open>target\<close>.
\<close>

fun is_basic_information_in_reports_dict :: "report_dict list \<Rightarrow> bool" where
  "is_basic_information_in_reports_dict [] = True"
| "is_basic_information_in_reports_dict (d # ds) =
     (if rd_timestamp d = None \<or> rd_sensor d = None \<or> rd_target d = None then False
      else is_basic_information_in_reports_dict ds)"

fun groups_in_all :: "report_dict list \<Rightarrow> bool" where
  "groups_in_all [] = True"
| "groups_in_all (d # ds) = (if rd_groups d = None then False else groups_in_all ds)"

definition is_information_in_reports_dict :: "report_dict list \<Rightarrow> bool" where
  "is_information_in_reports_dict reports_dict =
     (if \<not> groups_in_all reports_dict then False
      else is_basic_information_in_reports_dict reports_dict)"

text \<open>The four nested \<open>items()\<close> loops: one line for each event value.\<close>

definition rows_of_events ::
  "string \<Rightarrow> string \<Rightarrow> string \<Rightarrow> string \<Rightarrow> events_dict \<Rightarrow> hwpc_row list" where
  "rows_of_events current_target group_id socket_id core_id events =
     map (\<lambda>(event_id, event_value).
       \<lparr>r_target = current_target, r_groups = group_id, r_socket_id = socket_id,
        r_core_id = core_id, r_event_id = event_id, r_event_value = event_value\<rparr>) events"

definition rows_of_cores :: "string \<Rightarrow> string \<Rightarrow> string \<Rightarrow> cores_dict \<Rightarrow> hwpc_row list" where
  "rows_of_cores current_target group_id socket_id cores =
     concat (map (\<lambda>(core_id, events).
       rows_of_events current_target group_id socket_id core_id events) cores)"

definition rows_of_sockets :: "string \<Rightarrow> string \<Rightarrow> sockets_dict \<Rightarrow> hwpc_row list" where
  "rows_of_sockets current_target group_id sockets =
     concat (map (\<lambda>(socket_id, cores).
       rows_of_cores current_target group_id socket_id cores) sockets)"

definition rows_of_groups :: "string \<Rightarrow> groups_dict \<Rightarrow> hwpc_row list" where
  "rows_of_groups current_target current_groups_dict =
     concat (map (\<lambda>(group_id, sockets).
       rows_of_sockets current_target group_id sockets) current_groups_dict)"

fun report_data :: "report_dict list \<Rightarrow> hwpc_row list \<Rightarrow> error + hwpc_row list" where
  "report_data [] acc = Inr acc"
| "report_data (d # ds) acc =
     (case rd_groups d of
        None \<Rightarrow> Inl KeyError
      | Some current_groups_dict \<Rightarrow>
          (case rd_target d of
             None \<Rightarrow> Inl KeyError
           | Some current_target \<Rightarrow>
               report_data ds (acc @ rows_of_groups current_target current_groups_dict)))"

definition create_reports_group_from_dicts :: "report_dict list \<Rightarrow> error + hwpc_reports_group" where
  "create_reports_group_from_dicts reports_dict =
     (if \<not> is_information_in_reports_dict reports_dict then Inl BadInputDataException
      else
        (case report_data reports_dict [] of
           Inl e \<Rightarrow> Inl e
         | Inr report \<Rightarrow>
             (case reports_dict of
                [] \<Rightarrow> Inl IndexError
              | current_report_dict # _ \<Rightarrow>
                  (let metadata = (case rd_metadata current_report_dict of None \<Rightarrow> [] | Some m \<Rightarrow> m)
                   in case rd_timestamp current_report_dict of
                        None \<Rightarrow> Inl KeyError
                      | Some ts \<Rightarrow>
                          (case rd_sensor current_report_dict of
                             None \<Rightarrow> Inl KeyError
                           | Some sn \<Rightarrow>
                               Inr \<lparr>g_timestamp = ts, g_sensor = sn, g_metadata = metadata,
                                    g_report = report\<rparr>)))))"

text \<open>
  The keys of a \<open>groupby(..., sort=False)\<close>: the values of the key columns in the order
  of their first line.
\<close>

fun groupby_keys :: "'k list \<Rightarrow> 'k list \<Rightarrow> 'k list" where
  "groupby_keys seen [] = seen"
| "groupby_keys seen (k # ks) =
     (if k \<in> set seen then groupby_keys seen ks else groupby_keys (seen @ [k]) ks)"

text \<open>
  \<open>to_mongodb_dict\<close> builds dictionaries that it mutates and appends to a list, so the
  dictionaries live in a store, and the list holds their addresses.
\<close>

type_synonym addr = nat

record store =
  objects :: "addr \<Rightarrow> report_dict option"
  next_addr :: addr

definition empty_store :: store where
  "empty_store = \<lparr>objects = (\<lambda>_. None), next_addr = 0\<rparr>"

definition alloc :: "report_dict \<Rightarrow> store \<Rightarrow> addr \<times> store" where
  "alloc d h = (next_addr h, \<lparr>objects = (objects h)(next_addr h \<mapsto> d), next_addr = Suc (next_addr h)\<rparr>)"

definition modify :: "addr \<Rightarrow> (report_dict \<Rightarrow> report_dict) \<Rightarrow> store \<Rightarrow> store" where
  "modify a f h =
     (case objects h a of None \<Rightarrow> h | Some d \<Rightarrow> h\<lparr>objects := (objects h)(a \<mapsto> f d)\<rparr>)"

text \<open>
  Modelled from the spec: \<open>ReportsGroup._to_mongodb_dict_basic_infos\<close> (base class, not
  part of the sources) returns a dictionary with the timestamp, the sensor and the
  metadata of the group.
\<close>

definition to_mongodb_dict_basic_infos :: "hwpc_reports_group \<Rightarrow> report_dict" where
  "to_mongodb_dict_basic_infos g =
     \<lparr>rd_timestamp = Some (g_timestamp g), rd_sensor = Some (g_sensor g), rd_target = None,
      rd_groups = None, rd_metadata = Some (g_metadata g)\<rparr>"

text \<open>
  The body of the loop over the lines of one target: create the group, the socket and
  the core where they are missing, then store the event value.
\<close>

definition add_event_value :: "hwpc_row \<Rightarrow> groups_dict \<Rightarrow> groups_dict" where
  "add_event_value current_row groups =
     (let sockets = (case map_of groups (r_groups current_row) of None \<Rightarrow> [] | Some x \<Rightarrow> x);
          cores = (case map_of sockets (r_socket_id current_row) of None \<Rightarrow> [] | Some x \<Rightarrow> x);
          events = (case map_of cores (r_core_id current_row) of None \<Rightarrow> [] | Some x \<Rightarrow> x)
      in AList.update (r_groups current_row)
           (AList.update (r_socket_id current_row)
              (AList.update (r_core_id current_row)
                 (AList.update (r_event_id current_row) (r_event_value current_row) events)
                 cores)
              sockets)
           groups)"

definition add_row :: "addr \<Rightarrow> hwpc_row \<Rightarrow> store \<Rightarrow> store" where
  "add_row a current_row h =
     modify a (\<lambda>d. d\<lparr>rd_groups :=
        Some (add_event_value current_row (case rd_groups d of None \<Rightarrow> [] | Some g \<Rightarrow> g))\<rparr>) h"

text \<open>
  The loop over the targets. \<open>current_report_dict = report_dict_basics\<close> is an
  assignment of the reference: every round writes the one dictionary at
  \<open>report_dict_basics\<close> and appends its address.
\<close>

fun targets_loop ::
  "hwpc_row list \<Rightarrow> addr \<Rightarrow> string list \<Rightarrow> store \<times> addr list \<Rightarrow> store \<times> addr list" where
  "targets_loop report report_dict_basics [] (h, reports_dict) = (h, reports_dict)"
| "targets_loop report report_dict_basics (current_target # later) (h, reports_dict) =
     (let current_report_dict = report_dict_basics;
          h1 = modify current_report_dict (\<lambda>d. d\<lparr>rd_target := Some current_target\<rparr>) h;
          h2 = modify current_report_dict (\<lambda>d. d\<lparr>rd_groups := Some []\<rparr>) h1;
          h3 = fold (add_row current_report_dict)
                 (filter (\<lambda>r. r_target r = current_target) report) h2
      in targets_loop report report_dict_basics later (h3, reports_dict @ [current_report_dict]))"

definition to_mongodb_dict :: "hwpc_reports_group \<Rightarrow> store \<Rightarrow> store \<times> addr list" where
  "to_mongodb_dict g h =
     (let (report_dict_basics, h1) = alloc (to_mongodb_dict_basic_infos g) h
      in targets_loop (g_report g) report_dict_basics
           (groupby_keys [] (map r_target (g_report g))) (h1, []))"

text \<open>What the caller reads in the returned list: the dictionary at each address.\<close>

definition read_list :: "store \<times> addr list \<Rightarrow> report_dict option list" where
  "read_list res = map (objects (fst res)) (snd res)"

text \<open>
  \<open>get_group_events\<close>: the keys are the pairs (group, event); \<open>group in group_events_key\<close> is
  membership in the pair.
\<close>

definition get_group_events :: "hwpc_row list \<Rightarrow> string \<Rightarrow> string list" where
  "get_group_events report group_name =
     map snd (filter (\<lambda>key. group_name = fst key \<or> group_name = snd key)
       (groupby_keys [] (map (\<lambda>r. (r_groups r, r_event_id r)) report)))"

definition sum_key :: "hwpc_row \<Rightarrow> string \<times> string \<times> string \<times> string" where
  "sum_key r = (r_target r, r_groups r, r_socket_id r, r_event_id r)"

text \<open>
  The sums of \<open>groupby(...)[event_value].sum()\<close>, on unbounded integers: the
  wrap-around of a sum that leaves the 64-bit range of the column is not modelled.
\<close>

definition groupby_sum :: "hwpc_row list \<Rightarrow> ((string \<times> string \<times> string \<times> string) \<times> int) list" where
  "groupby_sum report =
     map (\<lambda>k. (k, sum_list (map r_event_value (filter (\<lambda>r. sum_key r = k) report))))
       (groupby_keys [] (map sum_key report))"

text \<open>The loop under \<open>try\<close>: a missing key gives the result \<open>None\<close>.\<close>

fun fill_group_event_sum ::
  "((string \<times> string \<times> string \<times> string) \<times> int) list \<Rightarrow> string \<Rightarrow> string \<Rightarrow> string
     \<Rightarrow> string list \<Rightarrow> (string \<times> int) list \<Rightarrow> (string \<times> int) list option" where
  "fill_group_event_sum sums_dict target group_name socket [] group_event_sum = Some group_event_sum"
| "fill_group_event_sum sums_dict target group_name socket (event # later) group_event_sum =
     (case map_of sums_dict (target, group_name, socket, event) of
        None \<Rightarrow> None
      | Some v \<Rightarrow>
          fill_group_event_sum sums_dict target group_name socket later
            (AList.update event v group_event_sum))"

definition compute_group_event_sum ::
  "hwpc_reports_group \<Rightarrow> string \<Rightarrow> string \<Rightarrow> string \<Rightarrow> (string \<times> int) list option" where
  "compute_group_event_sum g group_name target socket =
     (let group_events = get_group_events (g_report g) group_name
      in if length group_events > 0 then
           fill_group_event_sum (groupby_sum (g_report g)) target group_name socket group_events []
         else None)"

section \<open>MongoSource\<close>

text \<open>
  \<open>subscribe\<close> in batch mode (\<open>stream_mode\<close> false). The cursor is the list of the
  documents it will return; \<open>current_group_dicts\<close> is \<open>None\<close> or the pair of a
  timestamp and the buffered documents; the observer is the list of what \<open>on_next\<close>
  was given. The group type's constructor is a parameter. The result is the exception
  raised, if any, the attribute \<open>current_group_dicts\<close> and the observer's list.
\<close>

type_synonym group_dicts = "(int \<times> report_dict list) option"

definition initialize_current_group_dicts :: "report_dict \<Rightarrow> error + group_dicts" where
  "initialize_current_group_dicts report_dict =
     (case rd_timestamp report_dict of
        None \<Rightarrow> Inl KeyError
      | Some ts \<Rightarrow> Inr (Some (ts, [report_dict])))"

fun subscribe_loop ::
  "(report_dict list \<Rightarrow> error + 'g) \<Rightarrow> report_dict list \<Rightarrow> group_dicts \<Rightarrow> 'g list
     \<Rightarrow> error option \<times> group_dicts \<times> 'g list" where
  "subscribe_loop create [] current observed = (None, current, observed)"
| "subscribe_loop create (report_dic # cursor) current observed =
     (case rd_timestamp report_dic of
        None \<Rightarrow> (Some KeyError, current, observed)
      | Some ts \<Rightarrow>
          (case current of
             Some (cts, dicts) \<Rightarrow>
               if cts = ts then
                 subscribe_loop create cursor (Some (cts, dicts @ [report_dic])) observed
               else
                 (case create dicts of
                    Inl e \<Rightarrow> (Some e, current, observed)
                  | Inr reports_group \<Rightarrow>
                      (case initialize_current_group_dicts report_dic of
                         Inl e \<Rightarrow> (Some e, current, observed)
                       | Inr current1 \<Rightarrow>
                           subscribe_loop create cursor current1 (observed @ [reports_group])))
           | None \<Rightarrow>
               (case initialize_current_group_dicts report_dic of
                  Inl e \<Rightarrow> (Some e, current, observed)
                | Inr current1 \<Rightarrow> subscribe_loop create cursor current1 observed)))"

text \<open>
  \<open>found\<close> is \<open>None\<close> when \<open>collection.find\<close> raises, and the cursor otherwise.
\<close>

definition subscribe ::
  "(report_dict list \<Rightarrow> error + 'g) \<Rightarrow> report_dict list option \<Rightarrow> group_dicts
     \<Rightarrow> error option \<times> group_dicts \<times> 'g list" where
  "subscribe create found current =
     (case found of
        None \<Rightarrow> (Some SourceException, current, [])
      | Some cursor \<Rightarrow> subscribe_loop create cursor current [])"

text \<open>
  The statement to compare \<open>subscribe\<close> with: the documents split into the maximal runs
  of consecutive documents with one timestamp.
\<close>

fun timestamp_runs :: "report_dict list \<Rightarrow> report_dict list list" where
  "timestamp_runs [] = []"
| "timestamp_runs [d] = [[d]]"
| "timestamp_runs (d # e # ds) =
     (if rd_timestamp d = rd_timestamp e then
        (case timestamp_runs (e # ds) of [] \<Rightarrow> [[d]] | r # rs \<Rightarrow> (d # r) # rs)
      else [d] # timestamp_runs (e # ds))"

section \<open>Example inputs\<close>

text \<open>
  Concrete states, handlers, actors and documents on which the theorems below are
  evaluated.
\<close>

definition uninitialized_state :: state where
  "uninitialized_state =
     \<lparr>alive = True, initialized = False,
      socket_interface = \<lparr>setup_calls = 1, close_calls = 0, control_sent = [], incoming = []\<rparr>\<rparr>"

definition started_state :: state where
  "started_state =
     \<lparr>alive = True, initialized = True,
      socket_interface = \<lparr>setup_calls = 1, close_calls = 0, control_sent = [OKMessage], incoming = []\<rparr>\<rparr>"

text \<open>
  A handler that runs \<open>StartHandler.handle\<close> from both entry points, and one that
  stops the actor, as a handler of \<open>PoisonPillMessage\<close> does.
\<close>

definition start_handler :: "unit handler" where
  "start_handler =
     \<lparr>h_handle = handle initialization,
      h_handle_message = (\<lambda>msg. handle initialization (Some msg))\<rparr>"

definition poison_pill_handler :: "unit handler" where
  "poison_pill_handler =
     \<lparr>h_handle = (\<lambda>msg st. Inr (st\<lparr>alive := False\<rparr>)),
      h_handle_message = (\<lambda>msg st. Inr (st\<lparr>alive := False\<rparr>))\<rparr>"

text \<open>
  An actor about to receive a start message and then a poison pill, and an initialized
  actor with a timeout handler and nothing to receive.
\<close>

definition example_actor :: "unit actor" where
  "example_actor =
     \<lparr>name = ''puller'', verbose = False, timeout = None,
      state = \<lparr>alive = True, initialized = False,
               socket_interface = \<lparr>setup_calls = 0, close_calls = 0, control_sent = [],
                 incoming = [[StartMessage], [PoisonPillMessage]]\<rparr>\<rparr>,
      timeout_handler = None,
      handlers = [(''StartMessage'', start_handler), (''object'', poison_pill_handler)],
      calls = []\<rparr>"

definition idle_actor :: "unit actor" where
  "idle_actor =
     \<lparr>name = ''puller'', verbose = False, timeout = Some 1000,
      state = \<lparr>alive = True, initialized = True,
               socket_interface = \<lparr>setup_calls = 1, close_calls = 0, control_sent = [OKMessage],
                 incoming = []\<rparr>\<rparr>,
      timeout_handler = Some poison_pill_handler,
      handlers = [(''StartMessage'', start_handler)],
      calls = []\<rparr>"



text \<open>
  The document of one event value of group \<open>msr\<close>, socket \<open>0\<close>, event \<open>e1\<close>,
  with timestamp 10 and sensor \<open>s1\<close>.
\<close>

definition event_row :: "string \<Rightarrow> string \<Rightarrow> int \<Rightarrow> report_dict" where
  "event_row target core v =
     \<lparr>rd_timestamp = Some 10, rd_sensor = Some ''s1'', rd_target = Some target,
      rd_groups = Some [(''msr'', [(''0'', [(core, [(''e1'', v)])])])], rd_metadata = None\<rparr>"

text \<open>
  A cursor over three documents: two with timestamp 10, then one with timestamp 20.
\<close>

definition example_cursor :: "report_dict list" where
  "example_cursor =
     [event_row ''t1'' ''0'' 3, event_row ''t1'' ''1'' 5,
      (event_row ''t1'' ''0'' 7)\<lparr>rd_timestamp := Some 20\<rparr>]"

section \<open>StartHandler: the start handshake\<close>

text \<open>
  C2. When the state is already initialized, \<open>StartHandler.handle\<close> returns the state
  it was given with one more message on the control channel, the error message
  \<open>Actor already initialized\<close>, and changes nothing else: \<open>initialized\<close> stays true.
  The result is the same for every \<open>initialization\<close> hook, also one that raises, so the
  hook is not run. This holds for every message, in particular for every start message.
\<close>

theorem start_handler_rejects_when_initialized:
  assumes "initialized st"
  shows "handle init msg st =
           Inr (st\<lparr>socket_interface :=
                  (socket_interface st)\<lparr>control_sent :=
                     control_sent (socket_interface st) @ [ErrorMessage ''Actor already initialized'']\<rparr>\<rparr>)"
  using assms by (simp add: handle_def send_control_def)

lemma first_start: "handle initialization (Some StartMessage) uninitialized_state = Inr started_state"
  by (simp add: handle_def initialization_def isinstance_def py_mro_def StartMessage_def
      uninitialized_state_def started_state_def send_control_def)

text \<open>
  A first start message initializes the state and is answered by \<open>OKMessage\<close>; the second
  one, handled with a hook that would raise, is answered by the error message.
\<close>

theorem start_handler_rejects_when_initialized_witness:
  "handle initialization (Some StartMessage) uninitialized_state = Inr started_state
   \<and> initialized started_state
   \<and> handle (\<lambda>st. Inl (HandlerError ''initialization called'')) (Some StartMessage) started_state =
       Inr \<lparr>alive = True, initialized = True,
            socket_interface = \<lparr>setup_calls = 1, close_calls = 0,
              control_sent = [OKMessage, ErrorMessage ''Actor already initialized''],
              incoming = []\<rparr>\<rparr>"
proof -
  have i: "initialized started_state" by (simp add: started_state_def)
  show ?thesis
    using start_handler_rejects_when_initialized [OF i,
        of "\<lambda>st. Inl (HandlerError ''initialization called'')" "Some StartMessage"]
    by (simp add: first_start i) (simp add: started_state_def)
qed

text \<open>
  C3, as stated, fails on an initialized state: a message that is not a start message is
  then answered by the error message on the control channel, because the test of
  \<open>initialized\<close> comes first.
\<close>

theorem start_handler_ignores_counterexample:
  "\<not> isinstance (Some PoisonPillMessage) ''StartMessage''
   \<and> handle initialization (Some PoisonPillMessage) started_state \<noteq> Inr started_state
   \<and> control_sent (socket_interface (projr (handle initialization (Some PoisonPillMessage) started_state)))
       = [OKMessage, ErrorMessage ''Actor already initialized'']"
  by (simp add: handle_def isinstance_def py_mro_def PoisonPillMessage_def started_state_def
      send_control_def)

text \<open>
  C3. On a state that is not initialized, a message that is not an instance of
  \<open>StartMessage\<close> is ignored: \<open>StartHandler.handle\<close> returns the state as it is, so
  nothing is sent on the control channel, and the \<open>initialization\<close> hook is not run.
\<close>

theorem start_handler_ignores_other_messages:
  assumes "\<not> initialized st" and "\<not> isinstance msg ''StartMessage''"
  shows "handle init msg st = Inr st"
  using assms by (simp add: handle_def)

theorem start_handler_ignores_other_messages_witness:
  "\<not> initialized uninitialized_state
   \<and> \<not> isinstance (Some PoisonPillMessage) ''StartMessage''
   \<and> handle (\<lambda>st. Inl (HandlerError ''initialization called'')) (Some PoisonPillMessage)
        uninitialized_state = Inr uninitialized_state"
proof -
  have i: "\<not> initialized uninitialized_state" by (simp add: uninitialized_state_def)
  have m: "\<not> isinstance (Some PoisonPillMessage) ''StartMessage''"
    by (simp add: isinstance_def py_mro_def PoisonPillMessage_def)
  show ?thesis
    using start_handler_ignores_other_messages [OF i m] i m by simp
qed

section \<open>Filter: routing\<close>

text \<open>
  With at least one rule, \<open>route\<close> returns the dispatchers of all the rules that accept
  the report, in registration order.
\<close>

lemma route_loop_filter:
  "route_loop filters report acc = acc @ map snd (filter (\<lambda>p. fst p report) filters)"
  by (induction filters report acc rule: route_loop.induct) auto

lemma route_nonempty:
  "filters \<noteq> [] \<Longrightarrow> route filters report = Inr (map snd (filter (\<lambda>p. fst p report) filters))"
  by (simp add: route_def route_loop_filter)

text \<open>
  C4. With no rule registered, \<open>route\<close> raises \<open>RuntimeError\<close>; it does not raise
  \<open>RouterWithoutRuleException\<close>, the exception the module declares for a filter that
  routes with no rule.
\<close>

theorem route_without_rule_raises_runtime_error:
  "route [] report = Inl RuntimeError \<and> route [] report \<noteq> Inl RouterWithoutRuleException"
  by (simp add: route_def)

section \<open>Actor: dispatch, timeout and termination\<close>

text \<open>A table built by \<open>add_handler\<close> is the list of the registrations, in order.\<close>

lemma add_handler_table:
  "handlers (fold (\<lambda>(t, h). add_handler t h) regs a) = handlers a @ regs"
  by (induction regs arbitrary: a) (auto simp: add_handler_def)

lemma get_corresponding_handler_first:
  assumes "\<exists>entry \<in> set hs. isinstance (Some m) (fst entry)"
  shows "\<exists>before t h after. hs = before @ (t, h) # after
           \<and> (\<forall>e \<in> set before. \<not> isinstance (Some m) (fst e))
           \<and> isinstance (Some m) t
           \<and> get_corresponding_handler hs m = Inr h"
  using assms
proof (induction hs)
  case Nil
  then show ?case by simp
next
  case (Cons p hs)
  obtain t h where p: "p = (t, h)" by (cases p)
  show ?case
  proof (cases "isinstance (Some m) t")
    case True
    then have "p # hs = [] @ (t, h) # hs \<and> (\<forall>e \<in> set []. \<not> isinstance (Some m) (fst e))
        \<and> isinstance (Some m) t \<and> get_corresponding_handler (p # hs) m = Inr h"
      by (simp add: p)
    then show ?thesis by blast
  next
    case False
    with Cons.prems p have "\<exists>entry \<in> set hs. isinstance (Some m) (fst entry)" by auto
    from Cons.IH [OF this] obtain before t' h' after where
      *: "hs = before @ (t', h') # after" "\<forall>e \<in> set before. \<not> isinstance (Some m) (fst e)"
         "isinstance (Some m) t'" "get_corresponding_handler hs m = Inr h'"
      by blast
    have "p # hs = (p # before) @ (t', h') # after
        \<and> (\<forall>e \<in> set (p # before). \<not> isinstance (Some m) (fst e))
        \<and> isinstance (Some m) t' \<and> get_corresponding_handler (p # hs) m = Inr h'"
      using * False by (simp add: p)
    then show ?thesis by blast
  qed
qed

lemma get_corresponding_handler_none:
  "\<forall>entry \<in> set hs. \<not> isinstance (Some m) (fst entry)
     \<Longrightarrow> get_corresponding_handler hs m = Inl UnknowMessageTypeException"
  by (induction hs) auto

text \<open>
  C1. For a message \<open>m\<close> at the head of what is left of the batch: if some entry of the
  handler table matches \<open>m\<close>, then \<open>get_corresponding_handler\<close> returns the handler of
  the first matching entry, and the dispatch loop makes exactly one call, of that handler's
  \<open>handle_message\<close> on \<open>m\<close>, before it goes on with the rest of the batch (or leaves
  with the handler's exception). If no entry matches, \<open>get_corresponding_handler\<close> raises
  \<open>UnknowMessageTypeException\<close>, and the loop ends with that exception and the actor as
  it was: no call is made for \<open>m\<close> or for the messages after it.
\<close>

theorem dispatch_first_matching_handler:
  "((\<exists>entry \<in> set (handlers a). isinstance (Some m) (fst entry)) \<longrightarrow>
      (\<exists>before t h after.
          handlers a = before @ (t, h) # after
        \<and> (\<forall>e \<in> set before. \<not> isinstance (Some m) (fst e))
        \<and> isinstance (Some m) t
        \<and> get_corresponding_handler (handlers a) m = Inr h
        \<and> dispatch a (m # rest) =
            (case h_handle_message h m (state a) of
               Inl e \<Rightarrow> (Some e, a\<lparr>calls := calls a @ [Handle_message h m]\<rparr>)
             | Inr st \<Rightarrow> dispatch (a\<lparr>calls := calls a @ [Handle_message h m], state := st\<rparr>) rest)))
   \<and> ((\<forall>entry \<in> set (handlers a). \<not> isinstance (Some m) (fst entry)) \<longrightarrow>
          get_corresponding_handler (handlers a) m = Inl UnknowMessageTypeException
        \<and> dispatch a (m # rest) = (Some UnknowMessageTypeException, a))"
proof (intro conjI impI)
  assume "\<exists>entry \<in> set (handlers a). isinstance (Some m) (fst entry)"
  from get_corresponding_handler_first [OF this] obtain before t h after where
    *: "handlers a = before @ (t, h) # after" "\<forall>e \<in> set before. \<not> isinstance (Some m) (fst e)"
       "isinstance (Some m) t" "get_corresponding_handler (handlers a) m = Inr h"
    by blast
  have "dispatch a (m # rest) =
      (case h_handle_message h m (state a) of
         Inl e \<Rightarrow> (Some e, a\<lparr>calls := calls a @ [Handle_message h m]\<rparr>)
       | Inr st \<Rightarrow> dispatch (a\<lparr>calls := calls a @ [Handle_message h m], state := st\<rparr>) rest)"
    using *(4) by (simp add: Let_def split: sum.splits)
  with * show "\<exists>before t h after.
          handlers a = before @ (t, h) # after
        \<and> (\<forall>e \<in> set before. \<not> isinstance (Some m) (fst e))
        \<and> isinstance (Some m) t
        \<and> get_corresponding_handler (handlers a) m = Inr h
        \<and> dispatch a (m # rest) =
            (case h_handle_message h m (state a) of
               Inl e \<Rightarrow> (Some e, a\<lparr>calls := calls a @ [Handle_message h m]\<rparr>)
             | Inr st \<Rightarrow> dispatch (a\<lparr>calls := calls a @ [Handle_message h m], state := st\<rparr>) rest)"
    by blast
next
  assume n: "\<forall>entry \<in> set (handlers a). \<not> isinstance (Some m) (fst entry)"
  then show "get_corresponding_handler (handlers a) m = Inl UnknowMessageTypeException"
    by (rule get_corresponding_handler_none)
  then show "dispatch a (m # rest) = (Some UnknowMessageTypeException, a)"
    by simp
qed

lemmas example_defs =
  example_actor_def actor_setup_def socket_setup_def start_handler_def poison_pill_handler_def
  initial_behaviour_def receive_def handle_def initialization_def isinstance_def py_mro_def
  StartMessage_def PoisonPillMessage_def OKMessage_def send_control_def Let_def

theorem dispatch_first_matching_handler_witness:
  "(\<exists>entry \<in> set (handlers example_actor). isinstance (Some StartMessage) (fst entry))
   \<and> get_corresponding_handler (handlers example_actor) StartMessage = Inr start_handler
   \<and> dispatch example_actor [StartMessage] =
       (None, example_actor\<lparr>
          state := (state example_actor)\<lparr>initialized := True,
            socket_interface := (socket_interface (state example_actor))\<lparr>control_sent := [OKMessage]\<rparr>\<rparr>,
          calls := [Handle_message start_handler StartMessage]\<rparr>)
   \<and> handlers idle_actor = [(''StartMessage'', start_handler)]
   \<and> \<not> isinstance (Some PoisonPillMessage) ''StartMessage''
   \<and> get_corresponding_handler (handlers idle_actor) PoisonPillMessage = Inl UnknowMessageTypeException
   \<and> dispatch idle_actor [PoisonPillMessage, StartMessage] = (Some UnknowMessageTypeException, idle_actor)"
proof -
  have m: "\<exists>entry \<in> set (handlers example_actor). isinstance (Some StartMessage) (fst entry)"
    by (simp add: example_actor_def isinstance_def py_mro_def StartMessage_def)
  have n: "\<forall>entry \<in> set (handlers idle_actor). \<not> isinstance (Some PoisonPillMessage) (fst entry)"
    by (simp add: idle_actor_def isinstance_def py_mro_def PoisonPillMessage_def)
  have d: "dispatch example_actor [StartMessage] =
       (None, example_actor\<lparr>
          state := (state example_actor)\<lparr>initialized := True,
            socket_interface := (socket_interface (state example_actor))\<lparr>control_sent := [OKMessage]\<rparr>\<rparr>,
          calls := [Handle_message start_handler StartMessage]\<rparr>)"
    by (simp add: example_defs)
  have g: "get_corresponding_handler (handlers example_actor) StartMessage = Inr start_handler"
    by (simp add: example_actor_def isinstance_def py_mro_def StartMessage_def)
  from dispatch_first_matching_handler [of idle_actor PoisonPillMessage "[StartMessage]"] n
  have "get_corresponding_handler (handlers idle_actor) PoisonPillMessage = Inl UnknowMessageTypeException
     \<and> dispatch idle_actor [PoisonPillMessage, StartMessage] = (Some UnknowMessageTypeException, idle_actor)"
    by blast
  moreover
  from dispatch_first_matching_handler [of example_actor StartMessage "[]"] m
  have "\<exists>h. get_corresponding_handler (handlers example_actor) StartMessage = Inr h"
    by blast
  moreover have "handlers idle_actor = [(''StartMessage'', start_handler)]"
    by (simp add: idle_actor_def)
  moreover have "\<not> isinstance (Some PoisonPillMessage) ''StartMessage''"
    by (simp add: isinstance_def py_mro_def PoisonPillMessage_def)
  ultimately show ?thesis using m d g by simp
qed

text \<open>
  A batch that is dispatched to its end makes one call for each message, in order, each to
  the handler \<open>get_corresponding_handler\<close> returns for it; the table does not change.
\<close>

lemma dispatch_handlers: "dispatch a msgs = (err, a') \<Longrightarrow> handlers a' = handlers a"
proof (induction msgs arbitrary: a)
  case Nil
  then show ?case by simp
next
  case (Cons m msgs)
  then show ?case
    by (fastforce simp: Let_def split: sum.splits)
qed

lemma dispatch_calls_batch:
  "dispatch a msgs = (None, a') \<Longrightarrow>
     \<exists>hs. calls a' = calls a @ map (\<lambda>(h, m). Handle_message h m) (zip hs msgs)
        \<and> length hs = length msgs
        \<and> (\<forall>i < length msgs. get_corresponding_handler (handlers a) (msgs ! i) = Inr (hs ! i))"
proof (induction msgs arbitrary: a)
  case Nil
  then show ?case by simp
next
  case (Cons m msgs)
  from Cons.prems obtain h st where
    h: "get_corresponding_handler (handlers a) m = Inr h"
    and st: "h_handle_message h m (state a) = Inr st"
    and d: "dispatch (a\<lparr>calls := calls a @ [Handle_message h m], state := st\<rparr>) msgs = (None, a')"
    by (auto simp: Let_def split: sum.splits)
  from Cons.IH [OF d] obtain hs where
    hs: "calls a' = (calls a @ [Handle_message h m]) @ map (\<lambda>(h, m). Handle_message h m) (zip hs msgs)"
      "length hs = length msgs"
      "\<forall>i < length msgs. get_corresponding_handler (handlers a) (msgs ! i) = Inr (hs ! i)"
    by auto
  have "calls a' = calls a @ map (\<lambda>(h, m). Handle_message h m) (zip (h # hs) (m # msgs))
      \<and> length (h # hs) = length (m # msgs)
      \<and> (\<forall>i < length (m # msgs).
            get_corresponding_handler (handlers a) ((m # msgs) ! i) = Inr ((h # hs) ! i))"
    using hs h by (auto simp: nth_Cons split: nat.splits)
  then show ?case by blast
qed

text \<open>
  C7. With a timeout handler registered, when \<open>receive()\<close> returns the empty list
  \<open>_initial_behaviour\<close> makes exactly one call, of the timeout handler's \<open>handle\<close> with
  \<open>None\<close> and the current state, and no call of a message handler; when the handler
  returns, its result is the new state of the actor.
\<close>

theorem timeout_handler_invoked:
  assumes "timeout_handler a = Some th"
    and "receive (socket_interface (state a)) = ([], sock)"
  shows "\<exists>err a'. initial_behaviour a = (err, a')
           \<and> calls a' = calls a @ [Handle_timeout th]
           \<and> (case h_handle th None ((state a)\<lparr>socket_interface := sock\<rparr>) of
                Inl e \<Rightarrow> err = Some e \<and> state a' = (state a)\<lparr>socket_interface := sock\<rparr>
              | Inr st \<Rightarrow> err = None \<and> state a' = st)"
  using assms by (simp add: initial_behaviour_def Let_def split: sum.splits)

theorem timeout_handler_invoked_witness:
  "timeout_handler idle_actor = Some poison_pill_handler
   \<and> receive (socket_interface (state idle_actor)) = ([], socket_interface (state idle_actor))
   \<and> initial_behaviour idle_actor =
       (None, idle_actor\<lparr>state := (state idle_actor)\<lparr>alive := False\<rparr>,
                         calls := [Handle_timeout poison_pill_handler]\<rparr>)"
proof -
  have h1: "timeout_handler idle_actor = Some poison_pill_handler"
    by (simp add: idle_actor_def)
  have h2: "receive (socket_interface (state idle_actor)) = ([], socket_interface (state idle_actor))"
    by (simp add: idle_actor_def receive_def)
  from timeout_handler_invoked [OF h1 h2]
  obtain err a' where r: "initial_behaviour idle_actor = (err, a')"
    and c: "calls a' = calls idle_actor @ [Handle_timeout poison_pill_handler]"
    by blast
  have "initial_behaviour idle_actor =
       (None, idle_actor\<lparr>state := (state idle_actor)\<lparr>alive := False\<rparr>,
                         calls := [Handle_timeout poison_pill_handler]\<rparr>)"
    by (simp add: idle_actor_def initial_behaviour_def receive_def poison_pill_handler_def Let_def)
  with h1 h2 show ?thesis by simp
qed














section \<open>HWPCReportsGroup: construction, serialization, sums\<close>

lemmas hwpc_defs =
  event_row_def create_reports_group_from_dicts_def is_information_in_reports_dict_def
  rows_of_groups_def rows_of_sockets_def rows_of_cores_def rows_of_events_def

text \<open>
  C9. On the empty list the check of the required keys succeeds, so
  \<open>create_reports_group_from_dicts\<close> does not raise \<open>BadInputDataException\<close>; it raises
  \<open>IndexError\<close> when it reads the first dictionary.
\<close>

theorem create_from_empty_list_index_error:
  "is_information_in_reports_dict []
   \<and> create_reports_group_from_dicts [] = Inl IndexError
   \<and> create_reports_group_from_dicts [] \<noteq> Inl BadInputDataException"
  by (simp add: create_reports_group_from_dicts_def is_information_in_reports_dict_def)

lemma create_two_cores:
  "create_reports_group_from_dicts [event_row ''t1'' ''0'' 3, event_row ''t1'' ''1'' 5] =
     Inr \<lparr>g_timestamp = 10, g_sensor = ''s1'', g_metadata = [],
          g_report =
            [\<lparr>r_target = ''t1'', r_groups = ''msr'', r_socket_id = ''0'', r_core_id = ''0'',
              r_event_id = ''e1'', r_event_value = 3\<rparr>,
             \<lparr>r_target = ''t1'', r_groups = ''msr'', r_socket_id = ''0'', r_core_id = ''1'',
              r_event_id = ''e1'', r_event_value = 5\<rparr>]\<rparr>"
  by (simp add: hwpc_defs)

text \<open>
  C6. For the group built from the two documents of target \<open>t1\<close>, group \<open>msr\<close>,
  socket \<open>0\<close>, event \<open>e1\<close>, with value 3 on core \<open>0\<close> and value 5 on core \<open>1\<close>,
  \<open>compute_group_event_sum\<close> for \<open>msr\<close>, \<open>t1\<close> and socket \<open>0\<close> returns the
  dictionary with the one entry \<open>e1\<close>: 8.
\<close>

theorem group_event_sum_scenario:
  "map_sum id (\<lambda>g. compute_group_event_sum g ''msr'' ''t1'' ''0'')
     (create_reports_group_from_dicts [event_row ''t1'' ''0'' 3, event_row ''t1'' ''1'' 5])
   = Inr (Some [(''e1'', 8)])"
  by (simp add: create_two_cores compute_group_event_sum_def get_group_events_def
      groupby_sum_def sum_key_def Let_def)

lemma create_two_targets:
  "create_reports_group_from_dicts [event_row ''t1'' ''0'' 3, event_row ''t2'' ''0'' 5] =
     Inr \<lparr>g_timestamp = 10, g_sensor = ''s1'', g_metadata = [],
          g_report =
            [\<lparr>r_target = ''t1'', r_groups = ''msr'', r_socket_id = ''0'', r_core_id = ''0'',
              r_event_id = ''e1'', r_event_value = 3\<rparr>,
             \<lparr>r_target = ''t2'', r_groups = ''msr'', r_socket_id = ''0'', r_core_id = ''0'',
              r_event_id = ''e1'', r_event_value = 5\<rparr>]\<rparr>"
  by (simp add: hwpc_defs)

text \<open>
  C5. For the group built from one document of target \<open>t1\<close> (value 3) and one of
  target \<open>t2\<close> (value 5), \<open>to_mongodb_dict\<close> returns a list that holds the same
  dictionary twice, with target \<open>t2\<close> and the value 5: the values of \<open>t1\<close> are not in
  the result.
\<close>

theorem to_mongodb_dict_two_targets:
  "map_sum id (\<lambda>g. read_list (to_mongodb_dict g empty_store))
     (create_reports_group_from_dicts [event_row ''t1'' ''0'' 3, event_row ''t2'' ''0'' 5])
   = Inr [Some \<lparr>rd_timestamp = Some 10, rd_sensor = Some ''s1'', rd_target = Some ''t2'',
               rd_groups = Some [(''msr'', [(''0'', [(''0'', [(''e1'', 5)])])])],
               rd_metadata = Some []\<rparr>,
          Some \<lparr>rd_timestamp = Some 10, rd_sensor = Some ''s1'', rd_target = Some ''t2'',
               rd_groups = Some [(''msr'', [(''0'', [(''0'', [(''e1'', 5)])])])],
               rd_metadata = Some []\<rparr>]"
  by (simp add: create_two_targets to_mongodb_dict_def to_mongodb_dict_basic_infos_def alloc_def
      empty_store_def modify_def add_row_def add_event_value_def read_list_def Let_def)

section \<open>MongoSource: batch mode\<close>

text \<open>Runs of timestamps: a buffer of one timestamp is one run, and ends where the timestamp changes.\<close>

lemma timestamp_runs_nonempty: "ds \<noteq> [] \<Longrightarrow> timestamp_runs ds \<noteq> []"
  by (induction ds rule: timestamp_runs.induct) (auto split: list.splits)

lemma timestamp_runs_uniform:
  "buf \<noteq> [] \<Longrightarrow> \<forall>d \<in> set buf. rd_timestamp d = Some ts \<Longrightarrow> timestamp_runs buf = [buf]"
proof (induction buf rule: timestamp_runs.induct)
  case 1
  then show ?case by simp
next
  case (2 d)
  show ?case by simp
next
  case (3 d e ds)
  have de: "rd_timestamp d = rd_timestamp e"
    using "3.prems"(2) by simp
  have "\<forall>x \<in> set (e # ds). rd_timestamp x = Some ts"
    using "3.prems"(2) by simp
  then have "timestamp_runs (e # ds) = [e # ds]"
    using "3.IH"(1) [OF de] by blast
  then show ?case
    using de by (simp del: timestamp_runs.simps add: timestamp_runs.simps(3) [of d e ds])
qed

lemma timestamp_runs_change:
  "buf \<noteq> [] \<Longrightarrow> \<forall>d \<in> set buf. rd_timestamp d = Some ts \<Longrightarrow> rd_timestamp e \<noteq> Some ts
     \<Longrightarrow> timestamp_runs (buf @ e # cursor) = buf # timestamp_runs (e # cursor)"
proof (induction buf rule: timestamp_runs.induct)
  case 1
  then show ?case by simp
next
  case (2 d)
  have "rd_timestamp d \<noteq> rd_timestamp e"
    using "2.prems"(2,3) by simp
  then show ?case
    by (simp del: timestamp_runs.simps add: timestamp_runs.simps(3) [of d e cursor])
next
  case (3 d d' ds)
  have de: "rd_timestamp d = rd_timestamp d'"
    using "3.prems"(2) by simp
  have u: "\<forall>x \<in> set (d' # ds). rd_timestamp x = Some ts"
    using "3.prems"(2) by simp
  have ne: "d' # ds \<noteq> []" by simp
  have "timestamp_runs ((d' # ds) @ e # cursor) = (d' # ds) # timestamp_runs (e # cursor)"
    using "3.IH"(1) [OF de ne u "3.prems"(3)] .
  then have "timestamp_runs (d' # (ds @ e # cursor)) = (d' # ds) # timestamp_runs (e # cursor)"
    by (simp del: timestamp_runs.simps)
  then show ?case
    using de
    by (simp del: timestamp_runs.simps add: timestamp_runs.simps(3) [of d d' "ds @ e # cursor"])
qed

text \<open>
  The loop from a buffer that holds documents of one timestamp: what the observer gets
  in addition are the groups of the first \<open>k\<close> runs of the buffer followed by the
  cursor, for some \<open>k\<close> below the number of runs.
\<close>

lemma subscribe_loop_buffered:
  assumes "buf \<noteq> []"
    and "\<forall>d \<in> set buf. rd_timestamp d = Some ts"
    and "\<forall>d \<in> set cursor. rd_timestamp d \<noteq> None"
    and "subscribe_loop create cursor (Some (ts, buf)) observed = (err, current, observed')"
  shows "\<exists>k gs. k < length (timestamp_runs (buf @ cursor))
           \<and> observed' = observed @ gs
           \<and> map Inr gs = map create (take k (timestamp_runs (buf @ cursor)))
           \<and> (err = None \<longrightarrow>
                 Suc k = length (timestamp_runs (buf @ cursor))
               \<and> (\<exists>ts'. rd_timestamp (last (buf @ cursor)) = Some ts'
                      \<and> current = Some (ts', last (timestamp_runs (buf @ cursor)))))"
  using assms
proof (induction cursor arbitrary: buf ts observed)
  case Nil
  have "timestamp_runs buf = [buf]"
    using Nil.prems(1,2) by (rule timestamp_runs_uniform)
  moreover have "rd_timestamp (last buf) = Some ts"
    using Nil.prems(1,2) by simp
  ultimately show ?case
    using Nil.prems(4) by (intro exI [of _ 0] exI [of _ "[]"]) (simp del: timestamp_runs.simps)
next
  case (Cons d cursor)
  from Cons.prems(3) obtain t where t: "rd_timestamp d = Some t" by auto
  show ?case
  proof (cases "ts = t")
    case True
    have l: "subscribe_loop create cursor (Some (ts, buf @ [d])) observed = (err, current, observed')"
      using Cons.prems(4) t True by simp
    have "\<exists>k gs. k < length (timestamp_runs ((buf @ [d]) @ cursor))
           \<and> observed' = observed @ gs
           \<and> map Inr gs = map create (take k (timestamp_runs ((buf @ [d]) @ cursor)))
           \<and> (err = None \<longrightarrow>
                 Suc k = length (timestamp_runs ((buf @ [d]) @ cursor))
               \<and> (\<exists>ts'. rd_timestamp (last ((buf @ [d]) @ cursor)) = Some ts'
                      \<and> current = Some (ts', last (timestamp_runs ((buf @ [d]) @ cursor)))))"
      by (rule Cons.IH [OF _ _ _ l]) (use Cons.prems t True in auto)
    then show ?thesis by (simp del: timestamp_runs.simps)
  next
    case False
    then have ne: "rd_timestamp d \<noteq> Some ts" using t by simp
    have runs: "timestamp_runs (buf @ d # cursor) = buf # timestamp_runs (d # cursor)"
      using Cons.prems(1,2) ne by (rule timestamp_runs_change)
    have rne: "timestamp_runs (d # cursor) \<noteq> []"
      by (rule timestamp_runs_nonempty) simp
    show ?thesis
    proof (cases "create buf")
      case (Inl e)
      then have "err = Some e" "observed' = observed"
        using Cons.prems(4) t False by (simp_all add: initialize_current_group_dicts_def)
      then show ?thesis
        using runs by (intro exI [of _ 0] exI [of _ "[]"]) (simp del: timestamp_runs.simps)
    next
      case (Inr g)
      then have l: "subscribe_loop create cursor (Some (t, [d])) (observed @ [g]) = (err, current, observed')"
        using Cons.prems(4) t False by (simp add: initialize_current_group_dicts_def)
      have "\<exists>k gs. k < length (timestamp_runs ([d] @ cursor))
           \<and> observed' = (observed @ [g]) @ gs
           \<and> map Inr gs = map create (take k (timestamp_runs ([d] @ cursor)))
           \<and> (err = None \<longrightarrow>
                 Suc k = length (timestamp_runs ([d] @ cursor))
               \<and> (\<exists>ts'. rd_timestamp (last ([d] @ cursor)) = Some ts'
                      \<and> current = Some (ts', last (timestamp_runs ([d] @ cursor)))))"
        by (rule Cons.IH [OF _ _ _ l]) (use Cons.prems t in auto)
      then have "\<exists>k gs. k < length (timestamp_runs (d # cursor))
           \<and> observed' = observed @ g # gs
           \<and> map Inr gs = map create (take k (timestamp_runs (d # cursor)))
           \<and> (err = None \<longrightarrow>
                 Suc k = length (timestamp_runs (d # cursor))
               \<and> (\<exists>ts'. rd_timestamp (last (d # cursor)) = Some ts'
                      \<and> current = Some (ts', last (timestamp_runs (d # cursor)))))"
        by (simp only: append_assoc append_Cons append_Nil)
      then obtain k gs where
        k: "k < length (timestamp_runs (d # cursor))"
        and o: "observed' = observed @ g # gs"
        and m: "map Inr gs = map create (take k (timestamp_runs (d # cursor)))"
        and f: "err = None \<longrightarrow>
                 Suc k = length (timestamp_runs (d # cursor))
               \<and> (\<exists>ts'. rd_timestamp (last (d # cursor)) = Some ts'
                      \<and> current = Some (ts', last (timestamp_runs (d # cursor))))"
        by blast
      have "Suc k < length (timestamp_runs (buf @ d # cursor))
           \<and> observed' = observed @ (g # gs)
           \<and> map Inr (g # gs) = map create (take (Suc k) (timestamp_runs (buf @ d # cursor)))
           \<and> (err = None \<longrightarrow>
                 Suc (Suc k) = length (timestamp_runs (buf @ d # cursor))
               \<and> (\<exists>ts'. rd_timestamp (last (buf @ d # cursor)) = Some ts'
                      \<and> current = Some (ts', last (timestamp_runs (buf @ d # cursor)))))"
        using k o m f rne Inr by (simp del: timestamp_runs.simps add: runs)
      then show ?thesis by blast
    qed
  qed
qed

text \<open>
  C10. In batch mode, on a cursor that is not empty and whose documents all have a
  timestamp, starting with no buffered group: the observer receives the groups built from
  the first \<open>k\<close> runs of equal timestamps, where \<open>k\<close> is less than the number of
  runs, so a run is emitted only after a document with another timestamp has been read
  and the last run is never emitted. When \<open>subscribe\<close> returns without an exception,
  the observer has received the groups of all runs but the last, and the last run is still
  in \<open>current_group_dicts\<close>.
\<close>

theorem subscribe_keeps_last_group:
  assumes "cursor \<noteq> []"
    and "\<forall>d \<in> set cursor. rd_timestamp d \<noteq> None"
    and "subscribe create (Some cursor) None = (err, current, observed)"
  shows "\<exists>k. k < length (timestamp_runs cursor)
           \<and> map Inr observed = map create (take k (timestamp_runs cursor))
           \<and> (err = None \<longrightarrow>
                 map Inr observed = map create (butlast (timestamp_runs cursor))
               \<and> (\<exists>ts. rd_timestamp (last cursor) = Some ts
                      \<and> current = Some (ts, last (timestamp_runs cursor))))"
proof -
  from assms(1) obtain d rest where c: "cursor = d # rest" by (cases cursor) auto
  from assms(2) c obtain t where t: "rd_timestamp d = Some t" by auto
  have l: "subscribe_loop create rest (Some (t, [d])) [] = (err, current, observed)"
    using assms(3) c t by (simp add: subscribe_def initialize_current_group_dicts_def)
  have "\<exists>k gs. k < length (timestamp_runs ([d] @ rest))
           \<and> observed = [] @ gs
           \<and> map Inr gs = map create (take k (timestamp_runs ([d] @ rest)))
           \<and> (err = None \<longrightarrow>
                 Suc k = length (timestamp_runs ([d] @ rest))
               \<and> (\<exists>ts'. rd_timestamp (last ([d] @ rest)) = Some ts'
                      \<and> current = Some (ts', last (timestamp_runs ([d] @ rest)))))"
    by (rule subscribe_loop_buffered [OF _ _ _ l]) (use assms(2) c t in auto)
  then obtain k where
    k: "k < length (timestamp_runs cursor)"
    and m: "map Inr observed = map create (take k (timestamp_runs cursor))"
    and f: "err = None \<longrightarrow>
                 Suc k = length (timestamp_runs cursor)
               \<and> (\<exists>ts'. rd_timestamp (last cursor) = Some ts'
                      \<and> current = Some (ts', last (timestamp_runs cursor)))"
    using c by (auto simp del: timestamp_runs.simps)
  have "err = None \<longrightarrow> take k (timestamp_runs cursor) = butlast (timestamp_runs cursor)"
  proof
    assume "err = None"
    with f have "Suc k = length (timestamp_runs cursor)" by blast
    then have "k = length (timestamp_runs cursor) - 1" by arith
    then show "take k (timestamp_runs cursor) = butlast (timestamp_runs cursor)"
      by (simp only: butlast_conv_take)
  qed
  with k m f show ?thesis by (auto simp del: timestamp_runs.simps)
qed


theorem subscribe_keeps_last_group_witness:
  "example_cursor \<noteq> []
   \<and> list_all (\<lambda>d. rd_timestamp d \<noteq> None) example_cursor
   \<and> timestamp_runs example_cursor =
       [[event_row ''t1'' ''0'' 3, event_row ''t1'' ''1'' 5],
        [(event_row ''t1'' ''0'' 7)\<lparr>rd_timestamp := Some 20\<rparr>]]
   \<and> subscribe create_reports_group_from_dicts (Some example_cursor) None =
       (None,
        Some (20, [(event_row ''t1'' ''0'' 7)\<lparr>rd_timestamp := Some 20\<rparr>]),
        [\<lparr>g_timestamp = 10, g_sensor = ''s1'', g_metadata = [],
          g_report =
            [\<lparr>r_target = ''t1'', r_groups = ''msr'', r_socket_id = ''0'', r_core_id = ''0'',
              r_event_id = ''e1'', r_event_value = 3\<rparr>,
             \<lparr>r_target = ''t1'', r_groups = ''msr'', r_socket_id = ''0'', r_core_id = ''1'',
              r_event_id = ''e1'', r_event_value = 5\<rparr>]\<rparr>])"
proof -
  have h1: "example_cursor \<noteq> []" by (simp add: example_cursor_def)
  have h2: "\<forall>d \<in> set example_cursor. rd_timestamp d \<noteq> None"
    by (simp add: example_cursor_def event_row_def)
  have h3: "subscribe create_reports_group_from_dicts (Some example_cursor) None =
       (None,
        Some (20, [(event_row ''t1'' ''0'' 7)\<lparr>rd_timestamp := Some 20\<rparr>]),
        [\<lparr>g_timestamp = 10, g_sensor = ''s1'', g_metadata = [],
          g_report =
            [\<lparr>r_target = ''t1'', r_groups = ''msr'', r_socket_id = ''0'', r_core_id = ''0'',
              r_event_id = ''e1'', r_event_value = 3\<rparr>,
             \<lparr>r_target = ''t1'', r_groups = ''msr'', r_socket_id = ''0'', r_core_id = ''1'',
              r_event_id = ''e1'', r_event_value = 5\<rparr>]\<rparr>])"
    by (simp add: example_cursor_def subscribe_def initialize_current_group_dicts_def hwpc_defs)
  have r: "timestamp_runs example_cursor =
       [[event_row ''t1'' ''0'' 3, event_row ''t1'' ''1'' 5],
        [(event_row ''t1'' ''0'' 7)\<lparr>rd_timestamp := Some 20\<rparr>]]"
    by (simp add: example_cursor_def event_row_def)
  from subscribe_keeps_last_group [OF h1 h2 h3]
  have "\<exists>ts. rd_timestamp (last example_cursor) = Some ts" by blast
  with h1 h2 h3 r show ?thesis by (simp add: list_all_iff)
qed

end
